theory Spec2Isabelle
  imports Complex_Main "HOL-Library.Multiset"
begin

section \<open>Numbers of the host language\<close>

text \<open>
  The program computes on JavaScript numbers. They are modelled as exact reals extended by
  the three non-finite values that the program's divisions can produce: rounding, overflow
  and the sign of zero are not modelled. Raw coordinates and tolerances are finite, hence
  of type \<open>real\<close>; every value computed by a division is a \<open>jsnum\<close>.
\<close>

datatype jsnum = Num real | PInf | NInf | NaN

fun jneg :: "jsnum \<Rightarrow> jsnum" where
  "jneg (Num a) = Num (- a)"
| "jneg PInf = NInf"
| "jneg NInf = PInf"
| "jneg NaN = NaN"

fun jadd :: "jsnum \<Rightarrow> jsnum \<Rightarrow> jsnum" where
  "jadd (Num a) (Num b) = Num (a + b)"
| "jadd NaN _ = NaN"
| "jadd _ NaN = NaN"
| "jadd PInf NInf = NaN"
| "jadd NInf PInf = NaN"
| "jadd PInf _ = PInf"
| "jadd _ PInf = PInf"
| "jadd NInf _ = NInf"
| "jadd _ NInf = NInf"

definition jsub :: "jsnum \<Rightarrow> jsnum \<Rightarrow> jsnum" where
  "jsub a b = jadd a (jneg b)"

fun jmul :: "jsnum \<Rightarrow> jsnum \<Rightarrow> jsnum" where
  "jmul (Num a) (Num b) = Num (a * b)"
| "jmul NaN _ = NaN"
| "jmul _ NaN = NaN"
| "jmul (Num a) PInf = (if a = 0 then NaN else if 0 < a then PInf else NInf)"
| "jmul (Num a) NInf = (if a = 0 then NaN else if 0 < a then NInf else PInf)"
| "jmul PInf (Num b) = (if b = 0 then NaN else if 0 < b then PInf else NInf)"
| "jmul NInf (Num b) = (if b = 0 then NaN else if 0 < b then NInf else PInf)"
| "jmul PInf PInf = PInf"
| "jmul NInf NInf = PInf"
| "jmul PInf NInf = NInf"
| "jmul NInf PInf = NInf"

fun jdiv :: "jsnum \<Rightarrow> jsnum \<Rightarrow> jsnum" where
  "jdiv (Num a) (Num b) =
     (if b = 0 then (if a = 0 then NaN else if 0 < a then PInf else NInf) else Num (a / b))"
| "jdiv NaN _ = NaN"
| "jdiv _ NaN = NaN"
| "jdiv (Num a) _ = Num 0"
| "jdiv PInf (Num b) = (if 0 \<le> b then PInf else NInf)"
| "jdiv NInf (Num b) = (if 0 \<le> b then NInf else PInf)"
| "jdiv _ _ = NaN"

text \<open>Comparisons: every comparison with NaN is false.\<close>

fun jlt :: "jsnum \<Rightarrow> jsnum \<Rightarrow> bool" where
  "jlt (Num a) (Num b) = (a < b)"
| "jlt NaN _ = False"
| "jlt _ NaN = False"
| "jlt PInf _ = False"
| "jlt _ NInf = False"
| "jlt _ _ = True"

fun jle :: "jsnum \<Rightarrow> jsnum \<Rightarrow> bool" where
  "jle (Num a) (Num b) = (a \<le> b)"
| "jle NaN _ = False"
| "jle _ NaN = False"
| "jle NInf _ = True"
| "jle _ PInf = True"
| "jle _ _ = False"

fun jabs :: "jsnum \<Rightarrow> jsnum" where
  "jabs (Num a) = Num \<bar>a\<bar>"
| "jabs PInf = PInf"
| "jabs NInf = PInf"
| "jabs NaN = NaN"

fun jsqrt :: "jsnum \<Rightarrow> jsnum" where
  "jsqrt (Num a) = (if a < 0 then NaN else Num (sqrt a))"
| "jsqrt PInf = PInf"
| "jsqrt _ = NaN"

fun jasin :: "jsnum \<Rightarrow> jsnum" where
  "jasin (Num a) = (if \<bar>a\<bar> \<le> 1 then Num (arcsin a) else NaN)"
| "jasin _ = NaN"

fun jacos :: "jsnum \<Rightarrow> jsnum" where
  "jacos (Num a) = (if \<bar>a\<bar> \<le> 1 then Num (arccos a) else NaN)"
| "jacos _ = NaN"

section \<open>Annotating flat lines: \<open>analyseLines\<close>\<close>

type_synonym flatline = "real \<times> real \<times> real \<times> real"

text \<open>
  A schemed line. The field \<open>length\<close> of the source is \<open>length_l\<close> here; an intercept that
  the source leaves unset is \<open>None\<close>.
\<close>

record schemedLine =
  angle :: jsnum
  length_l :: real
  coordinates :: flatline
  xint :: "jsnum option"
  yint :: "jsnum option"
  rank :: int

definition mathPi :: real where
  "mathPi = arccos (- 1)"

text \<open>The body of the \<open>forEach\<close> callback of \<open>analyseLines\<close>, for one line and its index.\<close>

definition schemeLine :: "flatline \<Rightarrow> int \<Rightarrow> schemedLine" where
  "schemeLine lineTemp lineIndex =
    (case lineTemp of (x0, y0, x1, y1) \<Rightarrow>
      let dist0 = sqrt ((x1 - x0)\<^sup>2 + (y1 - y0)\<^sup>2);
          angle0 = (if \<bar>x1 - x0\<bar> > \<bar>y1 - y0\<bar>
                    then jasin (jdiv (Num (y1 - y0)) (Num dist0))
                    else jacos (jdiv (Num (x1 - x0)) (Num dist0)))
      in \<lparr> angle = angle0,
           length_l = dist0,
           coordinates = lineTemp,
           xint = (if jlt (Num (mathPi / 8)) angle0 \<and> jlt angle0 (Num (mathPi * 7 / 8))
                   then Some (jsub (Num x0) (jmul (Num y0) (jdiv (Num (x1 - x0)) (Num (y1 - y0)))))
                   else None),
           yint = (if (jlt angle0 (Num (mathPi * 3 / 8)) \<and> jlt (Num (mathPi * (- 3) / 8)) angle0)
                      \<or> (jlt (Num (mathPi * 5 / 8)) angle0 \<and> jlt angle0 (Num (mathPi * 11 / 8)))
                   then Some (jsub (Num y0) (jmul (Num x0) (jdiv (Num (y1 - y0)) (Num (x1 - x0)))))
                   else None),
           rank = lineIndex \<rparr>)"

definition analyseLines :: "flatline list \<Rightarrow> schemedLine list" where
  "analyseLines lines = map (\<lambda>(lineIndex, lineTemp). schemeLine lineTemp (int lineIndex))
                            (List.enumerate 0 lines)"

section \<open>Geometry helpers: \<open>geometer.js\<close>\<close>

text \<open>
  A value that may be \<open>null\<close> is an option, \<open>None\<close> being \<open>null\<close>. Where the source
  uses such a value in arithmetic or in a comparison, JavaScript converts \<open>null\<close> to 0.
\<close>

definition toNumber :: "real option \<Rightarrow> real" where
  "toNumber v = (case v of None \<Rightarrow> 0 | Some r \<Rightarrow> r)"

text \<open>\<open>v <= tol\<close> for a possibly \<open>null\<close> left operand.\<close>

definition jsLeq :: "jsnum option \<Rightarrow> real \<Rightarrow> bool" where
  "jsLeq v tol = (case v of None \<Rightarrow> 0 \<le> tol | Some d \<Rightarrow> jle d (Num tol))"

text \<open>\<open>Array.prototype.slice(start, end)\<close> for indices within the array.\<close>

definition slice_js :: "nat \<Rightarrow> nat \<Rightarrow> 'a list \<Rightarrow> 'a list" where
  "slice_js start end xs = take (end - start) (drop start xs)"

text \<open>
  \<open>vectorBinaryOp\<close> of \<open>logician.js\<close> at the operator \<open>"-"\<close>, the only one that the code
  below passes: \<open>null\<close> when the lengths differ, else the differences \<open>v1[i] - v0[i]\<close>.
\<close>

definition vectorBinaryOpMinus :: "jsnum list \<Rightarrow> jsnum list \<Rightarrow> jsnum list option" where
  "vectorBinaryOpMinus v0 v1 =
     (if length v0 \<noteq> length v1 then None
      else Some (map (\<lambda>(a, b). jsub b a) (zip v0 v1)))"

definition vectorMagnitude :: "jsnum list option \<Rightarrow> jsnum option" where
  "vectorMagnitude v0 =
     (case v0 of None \<Rightarrow> None
      | Some v \<Rightarrow> Some (jsqrt (foldl (\<lambda>magnitudeTotal componentV.
                                 jadd magnitudeTotal (jmul componentV componentV)) (Num 0) v)))"

definition vectorDifference :: "jsnum list \<Rightarrow> jsnum list \<Rightarrow> jsnum list option" where
  "vectorDifference v0 v1 = vectorBinaryOpMinus v0 v1"

definition vectorDistance :: "jsnum list \<Rightarrow> jsnum list \<Rightarrow> jsnum option" where
  "vectorDistance v0 v1 = vectorMagnitude (vectorDifference v0 v1)"

definition vector2dProject :: "real \<times> real \<Rightarrow> real \<times> real \<Rightarrow> jsnum \<times> jsnum" where
  "vector2dProject v0 v1 =
     (case (v0, v1) of ((v00, v01), (v10, v11)) \<Rightarrow>
        (jdiv (Num (v00 * (v00 * v10 + v01 * v11))) (Num (v01 * v01 + v00 * v00)),
         jdiv (Num (v01 * (v00 * v10 + v01 * v11))) (Num (v01 * v01 + v00 * v00))))"

definition line2dProjectPoint :: "flatline \<Rightarrow> real \<times> real \<Rightarrow> jsnum \<times> jsnum" where
  "line2dProjectPoint baseLine projectionPoint =
     (case (baseLine, projectionPoint) of ((b0, b1, b2, b3), (p0, p1)) \<Rightarrow>
        let relativeProjection = vector2dProject (b2 - b0, b3 - b1) (p0 - b0, p1 - b1)
        in (jadd (fst relativeProjection) (Num b0), jadd (snd relativeProjection) (Num b1)))"

definition space1dHasPoint :: "real \<times> real \<Rightarrow> jsnum \<Rightarrow> bool" where
  "space1dHasPoint line point =
     (case line of (l0, l1) \<Rightarrow>
        if jle (Num l0) point \<and> jle point (Num l1) then True
        else if jle point (Num l0) \<and> jle (Num l1) point then True
        else False)"

definition space2dHasPoint :: "flatline \<Rightarrow> jsnum \<times> jsnum \<Rightarrow> bool" where
  "space2dHasPoint line point =
     (case (line, point) of ((l0, l1, l2, l3), (p0, p1)) \<Rightarrow>
        space1dHasPoint (l0, l2) p0 \<and> space1dHasPoint (l1, l3) p1)"

definition line2dProjectedPointWithinTolerance :: "flatline \<Rightarrow> real \<times> real \<Rightarrow> real \<Rightarrow> bool" where
  "line2dProjectedPointWithinTolerance line point tol =
     (let pointProjected = line2dProjectPoint line point
      in if space2dHasPoint line pointProjected
         then jsLeq (vectorDistance [Num (fst point), Num (snd point)]
                                    [fst pointProjected, snd pointProjected]) tol
         else False)"

text \<open>
  The accumulator of \<open>linesSchemedToFlatlineByBounds\<close>: \<open>minX\<close>, \<open>maxX\<close>, \<open>minY\<close>, \<open>maxY\<close>
  (initially \<open>null\<close>) and \<open>signednessNet\<close>. The source compares each bound with itself
  (\<open>minX < minX\<close>), which is written out as it stands.
\<close>

type_synonym boundsAcc = "real option \<times> real option \<times> real option \<times> real option \<times> int"

definition boundsStep :: "boundsAcc \<Rightarrow> schemedLine \<Rightarrow> boundsAcc" where
  "boundsStep acc line =
     (case (acc, coordinates line) of ((minX, maxX, minY, maxY, signednessNet), (c0, c1, c2, c3)) \<Rightarrow>
        let minXT = min c0 c2; minYT = min c1 c3; maxXT = max c0 c2; maxYT = max c1 c3
        in ((case minX of None \<Rightarrow> Some minXT | Some m \<Rightarrow> if m < m then Some minXT else Some m),
            (case maxX of None \<Rightarrow> Some maxXT | Some m \<Rightarrow> if m > m then Some maxXT else Some m),
            (case minY of None \<Rightarrow> Some minYT | Some m \<Rightarrow> if m < m then Some minYT else Some m),
            (case maxY of None \<Rightarrow> Some maxYT | Some m \<Rightarrow> if m > m then Some maxYT else Some m),
            (if ((c2 - c0) < 0 \<and> (c3 - c1) > 0) \<or> ((c2 - c0) > 0 \<and> (c3 - c1) < 0)
             then signednessNet - 1 else signednessNet + 1)))"

definition linesSchemedToFlatlineByBounds :: "schemedLine list \<Rightarrow> bool \<Rightarrow> real option list" where
  "linesSchemedToFlatlineByBounds lines signed =
     (case foldl boundsStep (None, None, None, None, 0) lines of
        (minX, maxX, minY, maxY, signednessNet) \<Rightarrow>
          if signed \<and> signednessNet < 0 then [minX, maxY, maxX, minY]
          else [minX, minY, maxX, maxY])"

text \<open>
  \<open>lineGroupAndSegmentAdjacent\<close>. The second and the fourth endpoint test of the source
  slice the bounds with \<open>slice(2, 2)\<close>, written out as it stands.
\<close>

definition lineGroupAndSegmentAdjacent :: "schemedLine list \<Rightarrow> schemedLine \<Rightarrow> real \<Rightarrow> bool" where
  "lineGroupAndSegmentAdjacent baseGroup testLineFull gap =
     (let baseGroupBounds = linesSchemedToFlatlineByBounds baseGroup True;
          boundsLine = (toNumber (baseGroupBounds ! 0), toNumber (baseGroupBounds ! 1),
                        toNumber (baseGroupBounds ! 2), toNumber (baseGroupBounds ! 3));
          boundsVec = map (\<lambda>v. Num (toNumber v)) baseGroupBounds
      in case coordinates testLineFull of (t0, t1, t2, t3) \<Rightarrow>
        let testLine = [Num t0, Num t1, Num t2, Num t3]
        in if line2dProjectedPointWithinTolerance boundsLine (t0, t1) gap then True
           else if line2dProjectedPointWithinTolerance boundsLine (t2, t3) gap then True
           else if jsLeq (vectorDistance (slice_js 0 2 boundsVec) (slice_js 0 2 testLine)) gap then True
           else if jsLeq (vectorDistance (slice_js 2 2 boundsVec) (slice_js 0 2 testLine)) gap then True
           else if jsLeq (vectorDistance (slice_js 0 2 boundsVec) (slice_js 2 4 testLine)) gap then True
           else if jsLeq (vectorDistance (slice_js 2 2 boundsVec) (slice_js 2 4 testLine)) gap then True
           else False)"

section \<open>Consolidation: \<open>consolidateLinesSchemed\<close>\<close>

subsection \<open>Grouping by colinearity\<close>

text \<open>The test that the innermost callback makes on a line and a prospective match.\<close>

definition interceptsWithin :: "jsnum option \<Rightarrow> jsnum option \<Rightarrow> real \<Rightarrow> bool" where
  "interceptsWithin a b dtol =
     (case (a, b) of (Some u, Some v) \<Rightarrow> jle (jabs (jsub u v)) (Num dtol) | _ \<Rightarrow> False)"

definition colinearMatch :: "real \<Rightarrow> real \<Rightarrow> schemedLine \<Rightarrow> schemedLine \<Rightarrow> bool" where
  "colinearMatch rtol dtol schemedLine prospectiveLineMatch =
     (jlt (jabs (jsub (angle schemedLine) (angle prospectiveLineMatch))) (Num rtol)
      \<and> (interceptsWithin (yint schemedLine) (yint prospectiveLineMatch) dtol
         \<or> interceptsWithin (xint schemedLine) (xint prospectiveLineMatch) dtol))"

text \<open>
  One round of the outer \<open>forEach\<close>: the line goes to the first group that has a matching
  member, or else opens a new group at the end. The predicate is a parameter because the
  grouping by slope and length runs the same loops with another test.
\<close>

fun placeLine :: "('a \<Rightarrow> 'a \<Rightarrow> bool) \<Rightarrow> 'a \<Rightarrow> 'a list list \<Rightarrow> 'a list list" where
  "placeLine match schemedLine [] = [[schemedLine]]"
| "placeLine match schemedLine (prospectiveGroup # rest) =
     (if list_ex (match schemedLine) prospectiveGroup
      then (prospectiveGroup @ [schemedLine]) # rest
      else prospectiveGroup # placeLine match schemedLine rest)"

definition groupLines :: "('a \<Rightarrow> 'a \<Rightarrow> bool) \<Rightarrow> 'a list \<Rightarrow> 'a list list" where
  "groupLines match schemedLines =
     foldl (\<lambda>lineGroups schemedLine. placeLine match schemedLine lineGroups) [] schemedLines"

definition colinearityGroups :: "schemedLine list \<Rightarrow> real \<Rightarrow> real \<Rightarrow> schemedLine list list" where
  "colinearityGroups schemedLines rtol dtol = groupLines (colinearMatch rtol dtol) schemedLines"

subsection \<open>Grouping by adjacency\<close>

text \<open>
  The inner \<open>forEach\<close> over \<open>adjacencyGroupsTemp\<close> for one line: the groups from index
  \<open>adjacencyGroupIndex\<close> on, the assignment so far (\<open>None\<close> is \<open>null\<close>) and the merge list.
  The line is pushed onto the first adjacent group; every further adjacent group is
  recorded in the merge list.
\<close>

fun scanAdjacency ::
  "real \<Rightarrow> schemedLine \<Rightarrow> nat \<Rightarrow> schemedLine list list \<Rightarrow> nat option \<Rightarrow> (nat \<times> nat) list
   \<Rightarrow> schemedLine list list \<times> nat option \<times> (nat \<times> nat) list" where
  "scanAdjacency dtol schemedLine adjacencyGroupIndex [] adjacencyAssignment adjacencyMerges =
     ([], adjacencyAssignment, adjacencyMerges)"
| "scanAdjacency dtol schemedLine adjacencyGroupIndex (adjacencyGroup # rest)
                 adjacencyAssignment adjacencyMerges =
     (if lineGroupAndSegmentAdjacent adjacencyGroup schemedLine dtol
      then (case adjacencyAssignment of
              None \<Rightarrow>
                (case scanAdjacency dtol schemedLine (adjacencyGroupIndex + 1) rest
                        (Some adjacencyGroupIndex) adjacencyMerges of
                   (rest', a, m) \<Rightarrow> ((adjacencyGroup @ [schemedLine]) # rest', a, m))
            | Some assigned \<Rightarrow>
                (case scanAdjacency dtol schemedLine (adjacencyGroupIndex + 1) rest
                        adjacencyAssignment (adjacencyMerges @ [(assigned, adjacencyGroupIndex)]) of
                   (rest', a, m) \<Rightarrow> (adjacencyGroup # rest', a, m)))
      else (case scanAdjacency dtol schemedLine (adjacencyGroupIndex + 1) rest
                   adjacencyAssignment adjacencyMerges of
              (rest', a, m) \<Rightarrow> (adjacencyGroup # rest', a, m)))"

definition adjacencyStep ::
  "real \<Rightarrow> schemedLine list list \<times> (nat \<times> nat) list \<Rightarrow> schemedLine
   \<Rightarrow> schemedLine list list \<times> (nat \<times> nat) list" where
  "adjacencyStep dtol state schemedLine =
     (case state of (adjacencyGroupsTemp, adjacencyMerges) \<Rightarrow>
        case scanAdjacency dtol schemedLine 0 adjacencyGroupsTemp None adjacencyMerges of
          (groups, adjacencyAssignment, merges) \<Rightarrow>
            (case adjacencyAssignment of
               None \<Rightarrow> (groups @ [[schemedLine]], merges)
             | Some _ \<Rightarrow> (groups, merges)))"

text \<open>
  The adjacency groups of one colinearity group. The source then builds a destination map
  and \<open>mergedGroups\<close> from the merge list, and uses neither (``The result is not presently
  used''): what it dumps to \<open>adjacencyGroups\<close> are the non-empty groups of
  \<open>adjacencyGroupsTemp\<close>.
\<close>

definition adjacencyGroupsOf :: "real \<Rightarrow> schemedLine list \<Rightarrow> schemedLine list list" where
  "adjacencyGroupsOf dtol lineGroup =
     filter (\<lambda>adjacencyGroupTemp. length adjacencyGroupTemp \<noteq> 0)
            (fst (foldl (adjacencyStep dtol) ([], []) lineGroup))"

subsection \<open>Joining the segments\<close>

text \<open>
  The accumulator of the joining loop: \<open>xMin\<close>, \<open>xMax\<close>, \<open>yMin\<close>, \<open>yMax\<close>, \<open>lastAngle\<close>
  (initially \<open>null\<close>) and \<open>rank\<close>.
\<close>

type_synonym joinAcc =
  "real option \<times> real option \<times> real option \<times> real option \<times> jsnum option \<times> int"

definition joinStep :: "int \<Rightarrow> joinAcc \<Rightarrow> schemedLine \<Rightarrow> joinAcc" where
  "joinStep schemedLineCount acc schemedLine =
     (case (acc, coordinates schemedLine) of
        ((xMin, xMax, yMin, yMax, lastAngle, rnk), (c0, c1, c2, c3)) \<Rightarrow>
          let txMin = min c0 c2; tyMin = min c1 c3; txMax = max c0 c2; tyMax = max c1 c3
          in ((case xMin of None \<Rightarrow> Some txMin | Some m \<Rightarrow> if txMin < m then Some txMin else Some m),
              (case xMax of None \<Rightarrow> Some txMax | Some m \<Rightarrow> if txMax > m then Some txMax else Some m),
              (case yMin of None \<Rightarrow> Some tyMin | Some m \<Rightarrow> if tyMin < m then Some tyMin else Some m),
              (case yMax of None \<Rightarrow> Some tyMax | Some m \<Rightarrow> if tyMax > m then Some tyMax else Some m),
              Some (angle schemedLine),
              rnk + (schemedLineCount - rank schemedLine)))"

text \<open>A ranked line \<open>{"rank": rank, "line": [...]}\<close> is a pair.\<close>

type_synonym bigLine = "int \<times> flatline"

definition joinGroup :: "int \<Rightarrow> schemedLine list \<Rightarrow> bigLine list" where
  "joinGroup schemedLineCount lineGroup =
     (case foldl (joinStep schemedLineCount) (None, None, None, None, None, 0) lineGroup of
        (Some xMin, Some xMax, Some yMin, Some yMax, Some lastAngle, rnk) \<Rightarrow>
          if xMin < xMax \<or> yMin < yMax
          then (if (jlt (Num 0) lastAngle \<and> jlt lastAngle (Num (mathPi / 2)))
                   \<or> (jlt (Num mathPi) lastAngle \<and> jlt lastAngle (Num (mathPi * 3 / 2)))
                   \<or> (jlt (Num (- mathPi)) lastAngle \<and> jlt lastAngle (Num (- mathPi / 2)))
                then [(rnk, (xMin, yMin, xMax, yMax))]
                else [(rnk, (xMin, yMax, xMax, yMin))])
          else []
      | _ \<Rightarrow> [])"

definition adjacencyGroups :: "schemedLine list \<Rightarrow> real \<Rightarrow> real \<Rightarrow> schemedLine list list" where
  "adjacencyGroups schemedLines rtol dtol =
     concat (map (adjacencyGroupsOf dtol) (colinearityGroups schemedLines rtol dtol))"

definition bigLines :: "schemedLine list \<Rightarrow> real \<Rightarrow> real \<Rightarrow> bigLine list" where
  "bigLines schemedLines rtol dtol =
     concat (map (joinGroup (int (length schemedLines))) (adjacencyGroups schemedLines rtol dtol))"

subsection \<open>Ordering and the entry points\<close>

text \<open>
  The comparison function that the source passes to \<open>sort\<close> returns the boolean
  \<open>a["rank"] < b["rank"]\<close>, which the host converts to the number 1 or 0.
\<close>

definition rankCompare :: "bigLine \<Rightarrow> bigLine \<Rightarrow> int" where
  "rankCompare a b = (if fst a < fst b then 1 else 0)"

text \<open>
  \<open>Array.prototype.sort\<close> belongs to the host, and the order it produces for a comparison
  function that is not consistent is left to the implementation. It is the parameter
  \<open>hostSort\<close> of the entry points.
\<close>

definition consolidateLinesSchemed ::
  "((bigLine \<Rightarrow> bigLine \<Rightarrow> int) \<Rightarrow> bigLine list \<Rightarrow> bigLine list)
   \<Rightarrow> schemedLine list \<Rightarrow> real \<Rightarrow> real \<Rightarrow> real \<Rightarrow> flatline list" where
  "consolidateLinesSchemed hostSort schemedLines rtol dtol dtolp =
     (let bigLinesOrdered = hostSort rankCompare (bigLines schemedLines rtol dtol)
      in map snd bigLinesOrdered)"

definition consolidateLines ::
  "((bigLine \<Rightarrow> bigLine \<Rightarrow> int) \<Rightarrow> bigLine list \<Rightarrow> bigLine list)
   \<Rightarrow> flatline list \<Rightarrow> real \<Rightarrow> real \<Rightarrow> real \<Rightarrow> flatline list" where
  "consolidateLines hostSort lines rtol dtol dtolp =
     consolidateLinesSchemed hostSort (analyseLines lines) rtol dtol dtolp"

section \<open>Grouping by slope and length: \<open>consolidateLinesSchemedBySlope\<close>\<close>

text \<open>\<open>scalarWithinTolerance\<close> of \<open>logician.js\<close>.\<close>

definition scalarWithinTolerance :: "real \<Rightarrow> real \<Rightarrow> real \<Rightarrow> bool" where
  "scalarWithinTolerance a b t =
     (let vDiff = \<bar>b - a\<bar>; vMax = max \<bar>a\<bar> \<bar>b\<bar>
      in if vDiff < vMax * t then True else False)"

text \<open>Every schemed line has the field \<open>length\<close>, so the two \<open>in\<close> tests of the source hold.\<close>

definition slopeLengthMatch :: "real \<Rightarrow> real \<Rightarrow> schemedLine \<Rightarrow> schemedLine \<Rightarrow> bool" where
  "slopeLengthMatch rtol dtolp schemedLine prospectiveLineMatch =
     (jlt (jabs (jsub (angle schemedLine) (angle prospectiveLineMatch))) (Num rtol)
      \<and> scalarWithinTolerance (length_l schemedLine) (length_l prospectiveLineMatch) dtolp)"

definition consolidateLinesSchemedBySlope ::
  "schemedLine list \<Rightarrow> real \<Rightarrow> real \<Rightarrow> real \<Rightarrow> schemedLine list list" where
  "consolidateLinesSchemedBySlope schemedLines rtol dtol dtolp =
     groupLines (slopeLengthMatch rtol dtolp) schemedLines"

definition consolidateLinesBySlope ::
  "flatline list \<Rightarrow> real \<Rightarrow> real \<Rightarrow> real \<Rightarrow> schemedLine list list" where
  "consolidateLinesBySlope lines rtol dtol dtolp =
     consolidateLinesSchemedBySlope (analyseLines lines) rtol dtol dtolp"

section \<open>The adjacency test in the words of the specification\<close>

text \<open>
  The specification's reading of the adjacency test, to compare \<open>lineGroupAndSegmentAdjacent\<close>
  with: (a) the projection of an endpoint of the candidate onto the reference bounding line
  lies within its span and within \<open>dtol\<close> of the endpoint, or (b) an endpoint of the
  candidate is within \<open>dtol\<close> of one of the two endpoints of the bounding line. The bounding
  line is the one the code computes.
\<close>

definition pointsWithin :: "real \<times> real \<Rightarrow> real \<times> real \<Rightarrow> real \<Rightarrow> bool" where
  "pointsWithin p q dtol = (sqrt ((fst q - fst p)\<^sup>2 + (snd q - snd p)\<^sup>2) \<le> dtol)"

definition adjacentBySpec :: "schemedLine list \<Rightarrow> schemedLine \<Rightarrow> real \<Rightarrow> bool" where
  "adjacentBySpec cluster candidate dtol =
     (let bounds = linesSchemedToFlatlineByBounds cluster True;
          b0 = toNumber (bounds ! 0); b1 = toNumber (bounds ! 1);
          b2 = toNumber (bounds ! 2); b3 = toNumber (bounds ! 3)
      in case coordinates candidate of (t0, t1, t2, t3) \<Rightarrow>
           (line2dProjectedPointWithinTolerance (b0, b1, b2, b3) (t0, t1) dtol
            \<or> line2dProjectedPointWithinTolerance (b0, b1, b2, b3) (t2, t3) dtol)
           \<or> (pointsWithin (b0, b1) (t0, t1) dtol \<or> pointsWithin (b2, b3) (t0, t1) dtol
              \<or> pointsWithin (b0, b1) (t2, t3) dtol \<or> pointsWithin (b2, b3) (t2, t3) dtol))"

section \<open>A host sort\<close>

text \<open>
  One \<open>Array.prototype.sort\<close> to run the entry points with: the stable insertion sort that
  moves an element in front of another exactly when the comparison function returns a
  negative number for the two.
\<close>

fun insertBy :: "('a \<Rightarrow> 'a \<Rightarrow> int) \<Rightarrow> 'a \<Rightarrow> 'a list \<Rightarrow> 'a list" where
  "insertBy comparefn x [] = [x]"
| "insertBy comparefn x (y # ys) =
     (if comparefn x y < 0 then x # y # ys else y # insertBy comparefn x ys)"

definition insertionSort :: "('a \<Rightarrow> 'a \<Rightarrow> int) \<Rightarrow> 'a list \<Rightarrow> 'a list" where
  "insertionSort comparefn xs = foldl (\<lambda>sorted x. insertBy comparefn x sorted) [] xs"

section \<open>Annotation in rounded arithmetic\<close>





section \<open>Properties of the annotation\<close>

lemma mathPi_pi: "mathPi = pi"
  by (simp add: mathPi_def)

lemma sqrt_100: "sqrt 100 = 10"
  using real_sqrt_abs [of 10] by simp

text \<open>
  C8. Annotating the horizontal flat line (0,5,10,5) gives angle 0, y-intercept 5 and no
  x-intercept; annotating the vertical flat line (5,0,5,10) gives angle pi/2, x-intercept 5
  and no y-intercept.
\<close>

theorem analyseLines_horizontal_vertical:
  "analyseLines [(0, 5, 10, 5)] =
     [\<lparr> angle = Num 0, length_l = 10, coordinates = (0, 5, 10, 5),
        xint = None, yint = Some (Num 5), rank = 0 \<rparr>]
   \<and> analyseLines [(5, 0, 5, 10)] =
     [\<lparr> angle = Num (pi / 2), length_l = 10, coordinates = (5, 0, 5, 10),
        xint = Some (Num 5), yint = None, rank = 0 \<rparr>]"
  by (simp add: analyseLines_def schemeLine_def mathPi_pi sqrt_100 jsub_def)










lemma analyseLines_length: "length (analyseLines lines) = length lines"
  by (simp add: analyseLines_def)

lemma analyseLines_nth:
  "i < length lines \<Longrightarrow> analyseLines lines ! i = schemeLine (lines ! i) (int i)"
  by (simp add: analyseLines_def nth_enumerate_eq)















text \<open>
  C4 as stated fails: a zero-length flat line is annotated like any other, and the
  annotated line that comes out has the angle NaN.
\<close>

theorem analyseLines_zero_length_counterexample:
  "analyseLines [(1, 1, 1, 1)] =
     [\<lparr> angle = NaN, length_l = 0, coordinates = (1, 1, 1, 1),
        xint = None, yint = None, rank = 0 \<rparr>]"
  by (simp add: analyseLines_def schemeLine_def)

lemma jsub_NaN: "jsub NaN x = NaN" "jsub x NaN = NaN"
  by (cases x; simp add: jsub_def)+

lemma colinearMatch_NaN:
  "angle s = NaN \<Longrightarrow> \<not> colinearMatch rtol dtol s p \<and> \<not> colinearMatch rtol dtol p s"
  by (simp add: colinearMatch_def jsub_NaN)

lemma slopeLengthMatch_NaN:
  "angle s = NaN \<Longrightarrow> \<not> slopeLengthMatch rtol dtolp s p \<and> \<not> slopeLengthMatch rtol dtolp p s"
  by (simp add: slopeLengthMatch_def jsub_NaN)

text \<open>
  C4, amended. Annotation never fails and returns one schemed line for each flat line; a
  zero-length flat line at index i is annotated with angle NaN, length 0, neither
  intercept, and rank i. The schemed line goes on to the grouping, where it matches no
  line and no line matches it.
\<close>

theorem analyseLines_zero_length:
  assumes "i < length lines" and "lines ! i = (x0, y0, x0, y0)"
  shows "length (analyseLines lines) = length lines
       \<and> analyseLines lines ! i =
           \<lparr> angle = NaN, length_l = 0, coordinates = (x0, y0, x0, y0),
             xint = None, yint = None, rank = int i \<rparr>
       \<and> \<not> colinearMatch rtol dtol (analyseLines lines ! i) p
       \<and> \<not> colinearMatch rtol dtol p (analyseLines lines ! i)
       \<and> \<not> slopeLengthMatch rtol dtolp (analyseLines lines ! i) p
       \<and> \<not> slopeLengthMatch rtol dtolp p (analyseLines lines ! i)"
proof -
  have s: "analyseLines lines ! i =
           \<lparr> angle = NaN, length_l = 0, coordinates = (x0, y0, x0, y0),
             xint = None, yint = None, rank = int i \<rparr>"
    using assms by (simp add: analyseLines_nth schemeLine_def)
  hence "angle (analyseLines lines ! i) = NaN" by simp
  thus ?thesis
    using s colinearMatch_NaN [of "analyseLines lines ! i" rtol dtol p]
      slopeLengthMatch_NaN [of "analyseLines lines ! i" rtol dtolp p]
    by (simp add: analyseLines_length)
qed

theorem analyseLines_zero_length_witness:
  "length (analyseLines [(0, 0, 1, 0), (2, 3, 2, 3)]) = 2
   \<and> analyseLines [(0, 0, 1, 0), (2, 3, 2, 3)] ! 1 =
           \<lparr> angle = NaN, length_l = 0, coordinates = (2, 3, 2, 3),
             xint = None, yint = None, rank = 1 \<rparr>"
  using analyseLines_zero_length [of 1 "[(0, 0, 1, 0), (2, 3, 2, 3)]" 2 3] by simp

section \<open>The adjacency test\<close>

lemma vectorDistance_null: "length v0 \<noteq> length v1 \<Longrightarrow> vectorDistance v0 v1 = None"
  by (simp add: vectorDistance_def vectorDifference_def vectorBinaryOpMinus_def vectorMagnitude_def)

lemma adjacent_of_nonneg_gap:
  assumes "0 \<le> gap"
  shows "lineGroupAndSegmentAdjacent baseGroup testLineFull gap"
proof -
  obtain t0 t1 t2 t3 where t: "coordinates testLineFull = (t0, t1, t2, t3)"
    by (cases "coordinates testLineFull") auto
  let ?bv = "map (\<lambda>v. Num (toNumber v)) (linesSchemedToFlatlineByBounds baseGroup True)"
  have "length (slice_js 2 2 ?bv) \<noteq> length (slice_js 0 2 [Num t0, Num t1, Num t2, Num t3])"
    by (simp add: slice_js_def)
  hence "vectorDistance (slice_js 2 2 ?bv) (slice_js 0 2 [Num t0, Num t1, Num t2, Num t3]) = None"
    by (rule vectorDistance_null)
  hence "jsLeq (vectorDistance (slice_js 2 2 ?bv) (slice_js 0 2 [Num t0, Num t1, Num t2, Num t3])) gap"
    using assms by (simp add: jsLeq_def)
  thus ?thesis
    by (simp add: lineGroupAndSegmentAdjacent_def Let_def t)
qed


lemma sqrt_64: "sqrt 64 = 8"
  using real_sqrt_abs [of 8] by simp

lemma coordinates_schemeLine: "coordinates (schemeLine l i) = l"
  by (cases l) (simp add: schemeLine_def Let_def)

lemma bounds_single:
  "linesSchemedToFlatlineByBounds [schemeLine (0, 0, 10, 0) i] True = [Some 0, Some 0, Some 10, Some 0]"
  by (simp add: linesSchemedToFlatlineByBounds_def boundsStep_def coordinates_schemeLine)

lemma project_far:
  "\<not> line2dProjectedPointWithinTolerance (0, 0, 10, 0) (12, 0) 1"
  "\<not> line2dProjectedPointWithinTolerance (0, 0, 10, 0) (20, 0) 1"
  by (simp_all add: line2dProjectedPointWithinTolerance_def line2dProjectPoint_def
        vector2dProject_def space2dHasPoint_def space1dHasPoint_def)

text \<open>
  C1 fails on the code. For the cluster holding the flat line (0,0,10,0), the candidate
  (12,0,20,0) and the gap 1, neither (a) nor (b) of the specification holds: both
  projections fall outside the span of the bounding line, and the four endpoint distances
  are 12, 2, 20 and 10. The code judges the candidate adjacent all the same, through the
  \<open>slice(2, 2)\<close> of its second endpoint test.
\<close>

theorem lineGroupAndSegmentAdjacent_beyond_gap:
  "lineGroupAndSegmentAdjacent [schemeLine (0, 0, 10, 0) 0] (schemeLine (12, 0, 20, 0) 1) 1
   \<and> \<not> adjacentBySpec [schemeLine (0, 0, 10, 0) 0] (schemeLine (12, 0, 20, 0) 1) 1"
proof
  show "lineGroupAndSegmentAdjacent [schemeLine (0, 0, 10, 0) 0] (schemeLine (12, 0, 20, 0) 1) 1"
    by (rule adjacent_of_nonneg_gap) simp
  show "\<not> adjacentBySpec [schemeLine (0, 0, 10, 0) 0] (schemeLine (12, 0, 20, 0) 1) 1"
    by (simp add: adjacentBySpec_def bounds_single coordinates_schemeLine toNumber_def
          project_far pointsWithin_def)
qed

lemma analyse_two:
  "analyseLines [(0, 0, 10, 0), (12, 0, 20, 0)] =
     [\<lparr> angle = Num 0, length_l = 10, coordinates = (0, 0, 10, 0),
        xint = None, yint = Some (Num 0), rank = 0 \<rparr>,
      \<lparr> angle = Num 0, length_l = 8, coordinates = (12, 0, 20, 0),
        xint = None, yint = Some (Num 0), rank = 1 \<rparr>]"
  by (simp add: analyseLines_def schemeLine_def Let_def mathPi_pi sqrt_100 sqrt_64 jsub_def)

lemma bigLines_two:
  assumes "0 < rtol"
  shows "bigLines (analyseLines [(0, 0, 10, 0), (12, 0, 20, 0)]) rtol 1 = [(3, (0, 0, 20, 0))]"
proof -
  let ?A = "\<lparr> angle = Num 0, length_l = 10, coordinates = (0, 0, 10, 0),
        xint = None, yint = Some (Num 0), rank = 0 \<rparr>"
  let ?B = "\<lparr> angle = Num 0, length_l = 8, coordinates = (12, 0, 20, 0),
        xint = None, yint = Some (Num 0), rank = 1 \<rparr>"
  have g: "colinearityGroups [?A, ?B] rtol 1 = [[?A, ?B]]"
    using assms by (simp add: colinearityGroups_def groupLines_def colinearMatch_def
        interceptsWithin_def jsub_def)
  have a: "adjacencyGroupsOf 1 [?A, ?B] = [[?A, ?B]]"
    by (simp add: adjacencyGroupsOf_def adjacencyStep_def adjacent_of_nonneg_gap)
  have j: "joinGroup 2 [?A, ?B] = [(3, (0, 0, 20, 0))]"
    by (simp add: joinGroup_def joinStep_def mathPi_pi)
  show ?thesis
    by (simp add: analyse_two bigLines_def adjacencyGroups_def g a j)
qed

lemma sort_singleton:
  assumes "\<forall>c xs. mset (hostSort c xs) = mset xs"
  shows "hostSort c [x] = [x]"
proof -
  have "mset (hostSort c [x]) = {#x#}" using assms by simp
  thus ?thesis by (simp add: mset_single_iff_right)
qed

text \<open>
  C2 fails on the code. With the distance tolerance 1 and any positive angular tolerance,
  the two flat lines (0,0,10,0) and (12,0,20,0) are consolidated into the single line
  (0,0,20,0), for every host sort that returns a permutation of its input.
\<close>

theorem consolidateLines_gap_merges:
  assumes "0 < rtol" and "\<forall>c xs. mset (hostSort c xs) = mset xs"
  shows "consolidateLines hostSort [(0, 0, 10, 0), (12, 0, 20, 0)] rtol 1 dtolp = [(0, 0, 20, 0)]"
  using bigLines_two [OF assms(1)] sort_singleton [OF assms(2)]
  by (simp add: consolidateLines_def consolidateLinesSchemed_def)

lemma insertBy_mset: "mset (insertBy c x ys) = mset ys + {#x#}"
  by (induction ys) simp_all

lemma foldl_insertBy_mset:
  "mset (foldl (\<lambda>sorted x. insertBy c x sorted) acc xs) = mset acc + mset xs"
  by (induction xs arbitrary: acc) (simp_all add: insertBy_mset)

lemma insertionSort_mset: "mset (insertionSort c xs) = mset xs"
  by (simp add: insertionSort_def foldl_insertBy_mset)

lemma insertionSort_length: "length (insertionSort c xs) = length xs"
  using insertionSort_mset [of c xs] by (metis size_mset)

theorem consolidateLines_gap_merges_witness:
  "consolidateLines insertionSort [(0, 0, 10, 0), (12, 0, 20, 0)] 1 1 1 = [(0, 0, 20, 0)]"
  using consolidateLines_gap_merges [of 1 insertionSort 1] by (simp add: insertionSort_mset)

section \<open>Partitions and counts\<close>

lemma placeLine_mset: "mset (concat (placeLine m s gs)) = mset (concat gs) + {#s#}"
  by (induction gs) simp_all

lemma placeLine_nonempty: "[] \<notin> set gs \<Longrightarrow> [] \<notin> set (placeLine m s gs)"
  by (induction gs) auto

lemma foldl_placeLine_mset:
  "mset (concat (foldl (\<lambda>gs s. placeLine m s gs) gs xs)) = mset (concat gs) + mset xs"
  by (induction xs arbitrary: gs) (simp_all add: placeLine_mset)

lemma foldl_placeLine_nonempty:
  "[] \<notin> set gs \<Longrightarrow> [] \<notin> set (foldl (\<lambda>gs s. placeLine m s gs) gs xs)"
  by (induction xs arbitrary: gs) (simp_all add: placeLine_nonempty)

lemma groupLines_mset: "mset (concat (groupLines m xs)) = mset xs"
  by (simp add: groupLines_def foldl_placeLine_mset)

lemma groupLines_nonempty: "[] \<notin> set (groupLines m xs)"
  by (simp add: groupLines_def foldl_placeLine_nonempty)

text \<open>
  C5. The colinearity groups partition the input: the groups taken together hold every
  input line exactly as often as the input does, and no group is empty.
\<close>

theorem colinearityGroups_partition:
  "mset (concat (colinearityGroups schemedLines rtol dtol)) = mset schemedLines
   \<and> [] \<notin> set (colinearityGroups schemedLines rtol dtol)"
  by (simp add: colinearityGroups_def groupLines_mset groupLines_nonempty)

lemma scanAdjacency_assigned:
  "scanAdjacency dtol s i gs (Some a) m = (gs', a', m') \<Longrightarrow> gs' = gs \<and> a' = Some a"
  by (induction gs arbitrary: i m gs' m') (auto split: if_splits prod.splits)

lemma scanAdjacency_unassigned:
  "scanAdjacency dtol s i gs None m = (gs', a', m') \<Longrightarrow>
     mset (concat gs') = mset (concat gs) + (if a' = None then {#} else {#s#})
     \<and> ([] \<notin> set gs \<longrightarrow> [] \<notin> set gs')"
proof (induction gs arbitrary: i m gs' a' m')
  case Nil
  then show ?case by simp
next
  case (Cons g gs)
  show ?case
  proof (cases "lineGroupAndSegmentAdjacent g s dtol")
    case True
    obtain r a2 m2 where r: "scanAdjacency dtol s (i + 1) gs (Some i) m = (r, a2, m2)"
      by (cases "scanAdjacency dtol s (i + 1) gs (Some i) m") auto
    from scanAdjacency_assigned [OF r] have "r = gs" "a2 = Some i" by auto
    with Cons.prems True r show ?thesis by auto
  next
    case False
    obtain r a2 m2 where r: "scanAdjacency dtol s (i + 1) gs None m = (r, a2, m2)"
      by (cases "scanAdjacency dtol s (i + 1) gs None m") auto
    from Cons.IH [OF r] Cons.prems False r show ?thesis by auto
  qed
qed

lemma adjacencyStep_mset:
  "mset (concat (fst (adjacencyStep dtol st s))) = mset (concat (fst st)) + {#s#}"
proof -
  obtain gs m where st: "st = (gs, m)" by (cases st)
  obtain gs' a' m' where r: "scanAdjacency dtol s 0 gs None m = (gs', a', m')"
    by (cases "scanAdjacency dtol s 0 gs None m") auto
  from scanAdjacency_unassigned [OF r] show ?thesis
    by (cases a') (simp_all add: adjacencyStep_def st r)
qed

lemma adjacencyStep_nonempty:
  "[] \<notin> set (fst st) \<Longrightarrow> [] \<notin> set (fst (adjacencyStep dtol st s))"
proof -
  assume ne: "[] \<notin> set (fst st)"
  obtain gs m where st: "st = (gs, m)" by (cases st)
  obtain gs' a' m' where r: "scanAdjacency dtol s 0 gs None m = (gs', a', m')"
    by (cases "scanAdjacency dtol s 0 gs None m") auto
  from scanAdjacency_unassigned [OF r] ne show ?thesis
    by (cases a') (simp_all add: adjacencyStep_def st r)
qed

lemma foldl_adjacencyStep_mset:
  "mset (concat (fst (foldl (adjacencyStep dtol) st xs))) = mset (concat (fst st)) + mset xs"
  by (induction xs arbitrary: st) (simp_all add: adjacencyStep_mset)

lemma foldl_adjacencyStep_nonempty:
  "[] \<notin> set (fst st) \<Longrightarrow> [] \<notin> set (fst (foldl (adjacencyStep dtol) st xs))"
  by (induction xs arbitrary: st) (simp_all add: adjacencyStep_nonempty)

lemma filter_nonempty_id: "[] \<notin> set gs \<Longrightarrow> filter (\<lambda>g. g \<noteq> []) gs = gs"
  by (induction gs) auto

lemma adjacencyGroupsOf_mset: "mset (concat (adjacencyGroupsOf dtol lineGroup)) = mset lineGroup"
  using foldl_adjacencyStep_nonempty [of "([], [])" dtol lineGroup]
  by (simp add: adjacencyGroupsOf_def filter_nonempty_id foldl_adjacencyStep_mset)

lemma adjacencyGroupsOf_nonempty: "[] \<notin> set (adjacencyGroupsOf dtol lineGroup)"
  by (simp add: adjacencyGroupsOf_def)

lemma concat_concat_map_mset:
  "(\<And>g. mset (concat (f g)) = mset g) \<Longrightarrow> mset (concat (concat (map f gs))) = mset (concat gs)"
  by (induction gs) simp_all

lemma adjacencyGroups_mset:
  "mset (concat (adjacencyGroups schemedLines rtol dtol)) = mset schemedLines"
  by (simp add: adjacencyGroups_def concat_concat_map_mset adjacencyGroupsOf_mset
        colinearityGroups_def groupLines_mset)

lemma adjacencyGroups_nonempty: "[] \<notin> set (adjacencyGroups schemedLines rtol dtol)"
  by (auto simp: adjacencyGroups_def adjacencyGroupsOf_nonempty)

lemma length_le_concat: "[] \<notin> set gs \<Longrightarrow> length gs \<le> length (concat gs)"
proof (induction gs)
  case Nil
  then show ?case by simp
next
  case (Cons g gs)
  then have "1 \<le> length g" by (cases g) auto
  with Cons show ?case by simp
qed

lemma joinGroup_length: "length (joinGroup n g) \<le> 1"
  by (simp add: joinGroup_def split: prod.splits option.splits)

lemma concat_map_short:
  "(\<And>g. length (f g) \<le> 1) \<Longrightarrow> length (concat (map f gs)) \<le> length gs"
proof (induction gs)
  case Nil
  then show ?case by simp
next
  case (Cons g gs)
  have "length (f g) \<le> 1" by (rule Cons.prems)
  moreover have "length (concat (map f gs)) \<le> length gs" by (rule Cons.IH) (rule Cons.prems)
  ultimately show ?case by simp
qed

lemma bigLines_length: "length (bigLines schemedLines rtol dtol) \<le> length (adjacencyGroups schemedLines rtol dtol)"
  unfolding bigLines_def by (rule concat_map_short) (rule joinGroup_length)

lemma adjacencyGroups_length: "length (adjacencyGroups schemedLines rtol dtol) \<le> length schemedLines"
proof -
  have "length (adjacencyGroups schemedLines rtol dtol) \<le> length (concat (adjacencyGroups schemedLines rtol dtol))"
    by (rule length_le_concat) (rule adjacencyGroups_nonempty)
  also have "\<dots> = size (mset (concat (adjacencyGroups schemedLines rtol dtol)))" by simp
  also have "\<dots> = length schemedLines" by (simp only: adjacencyGroups_mset size_mset)
  finally show ?thesis .
qed

text \<open>
  C10. Consolidation returns at most as many lines as it is given, and none for the empty
  input: the adjacency groups are non-empty and partition the annotated input, and every
  output line comes from one adjacency group. The host sort is assumed to keep the length
  of the array.
\<close>

theorem consolidateLines_no_more_segments:
  assumes "\<forall>c xs. length (hostSort c xs) = length xs"
  shows "length (consolidateLines hostSort lines rtol dtol dtolp) \<le> length lines
       \<and> consolidateLines hostSort [] rtol dtol dtolp = []
       \<and> mset (concat (adjacencyGroups (analyseLines lines) rtol dtol)) = mset (analyseLines lines)
       \<and> [] \<notin> set (adjacencyGroups (analyseLines lines) rtol dtol)
       \<and> length (consolidateLines hostSort lines rtol dtol dtolp)
           \<le> length (adjacencyGroups (analyseLines lines) rtol dtol)"
proof -
  have l: "length (consolidateLines hostSort ls rtol dtol dtolp) = length (bigLines (analyseLines ls) rtol dtol)" for ls
    using assms by (simp add: consolidateLines_def consolidateLinesSchemed_def)
  have 1: "length (consolidateLines hostSort lines rtol dtol dtolp) \<le> length (adjacencyGroups (analyseLines lines) rtol dtol)"
    using bigLines_length [of "analyseLines lines" rtol dtol] by (simp add: l)
  have 2: "length (adjacencyGroups (analyseLines lines) rtol dtol) \<le> length lines"
    using adjacencyGroups_length [of "analyseLines lines" rtol dtol] by (simp add: analyseLines_length)
  have 3: "length (consolidateLines hostSort [] rtol dtol dtolp) = 0"
    using bigLines_length [of "analyseLines []" rtol dtol] adjacencyGroups_length [of "analyseLines []" rtol dtol]
    by (simp add: l analyseLines_length)
  show ?thesis using 1 2 3 adjacencyGroups_mset adjacencyGroups_nonempty by auto
qed

theorem consolidateLines_no_more_segments_witness:
  "length (consolidateLines insertionSort [(0, 0, 10, 0), (12, 0, 20, 0)] 1 1 1) \<le> 2
   \<and> consolidateLines insertionSort [] 1 1 1 = []"
  using consolidateLines_no_more_segments [of insertionSort "[(0, 0, 10, 0), (12, 0, 20, 0)]" 1 1 1]
  by (simp add: insertionSort_length)

section \<open>Tolerances and the grouping by slope and length\<close>

lemma placeLine_no_match:
  "(\<And>a b. \<not> m a b) \<Longrightarrow> placeLine m s gs = gs @ [[s]]"
  by (induction gs) (simp_all add: list_ex_iff)

lemma foldl_placeLine_no_match:
  "(\<And>a b. \<not> m a b) \<Longrightarrow>
     foldl (\<lambda>gs s. placeLine m s gs) gs xs = gs @ map (\<lambda>s. [s]) xs"
  by (induction xs arbitrary: gs) (simp_all add: placeLine_no_match)

lemma groupLines_no_match:
  "(\<And>a b. \<not> m a b) \<Longrightarrow> groupLines m xs = map (\<lambda>s. [s]) xs"
  by (simp add: groupLines_def foldl_placeLine_no_match)

lemma jlt_jabs_nonpos: "t \<le> 0 \<Longrightarrow> \<not> jlt (jabs x) (Num t)"
  by (cases x) auto

lemma jle_jabs_neg: "t < 0 \<Longrightarrow> \<not> jle (jabs x) (Num t)"
  by (cases x) auto

lemma colinearMatch_never:
  "rtol \<le> 0 \<or> dtol < 0 \<Longrightarrow> \<not> colinearMatch rtol dtol a b"
  by (auto simp: colinearMatch_def interceptsWithin_def jlt_jabs_nonpos jle_jabs_neg
        split: option.splits)

lemma scalarWithinTolerance_never:
  assumes "t \<le> 0"
  shows "\<not> scalarWithinTolerance a b t"
proof -
  have "max \<bar>a\<bar> \<bar>b\<bar> * t \<le> 0" using assms by (simp add: mult_nonneg_nonpos)
  moreover have "0 \<le> \<bar>b - a\<bar>" by simp
  ultimately show ?thesis by (simp add: scalarWithinTolerance_def Let_def)
qed

lemma slopeLengthMatch_never:
  "rtol \<le> 0 \<or> dtolp \<le> 0 \<Longrightarrow> \<not> slopeLengthMatch rtol dtolp a b"
  by (auto simp: slopeLengthMatch_def jlt_jabs_nonpos scalarWithinTolerance_never)

lemma adjacencyGroupsOf_single: "adjacencyGroupsOf dtol [s] = [[s]]"
  by (simp add: adjacencyGroupsOf_def adjacencyStep_def)

lemma concat_map_single: "concat (map (\<lambda>s. [f s]) xs) = map f xs"
  by (induction xs) simp_all

lemma analyse_pair:
  "analyseLines [(0, 0, 10, 0), (0, 5, 10, 5)] =
     [\<lparr> angle = Num 0, length_l = 10, coordinates = (0, 0, 10, 0),
        xint = None, yint = Some (Num 0), rank = 0 \<rparr>,
      \<lparr> angle = Num 0, length_l = 10, coordinates = (0, 5, 10, 5),
        xint = None, yint = Some (Num 5), rank = 1 \<rparr>]"
  by (simp add: analyseLines_def schemeLine_def Let_def mathPi_pi sqrt_100 jsub_def)

lemma pair_positive_tolerances:
  "consolidateLinesBySlope [(0, 0, 10, 0), (0, 5, 10, 5)] 1 10 1 =
     [[\<lparr> angle = Num 0, length_l = 10, coordinates = (0, 0, 10, 0),
         xint = None, yint = Some (Num 0), rank = 0 \<rparr>,
       \<lparr> angle = Num 0, length_l = 10, coordinates = (0, 5, 10, 5),
         xint = None, yint = Some (Num 5), rank = 1 \<rparr>]]"
  "consolidateLines insertionSort [(0, 0, 10, 0), (0, 5, 10, 5)] 1 10 1 = [(0, 5, 10, 0)]"
proof -
  let ?A = "\<lparr> angle = Num 0, length_l = 10, coordinates = (0, 0, 10, 0),
        xint = None, yint = Some (Num 0), rank = 0 \<rparr>"
  let ?B = "\<lparr> angle = Num 0, length_l = 10, coordinates = (0, 5, 10, 5),
        xint = None, yint = Some (Num 5), rank = 1 \<rparr>"
  show "consolidateLinesBySlope [(0, 0, 10, 0), (0, 5, 10, 5)] 1 10 1 = [[?A, ?B]]"
    by (simp add: consolidateLinesBySlope_def consolidateLinesSchemedBySlope_def analyse_pair
          groupLines_def slopeLengthMatch_def scalarWithinTolerance_def jsub_def)
  have g: "colinearityGroups [?A, ?B] 1 10 = [[?A, ?B]]"
    by (simp add: colinearityGroups_def groupLines_def colinearMatch_def
        interceptsWithin_def jsub_def)
  have a: "adjacencyGroupsOf 10 [?A, ?B] = [[?A, ?B]]"
    by (simp add: adjacencyGroupsOf_def adjacencyStep_def adjacent_of_nonneg_gap)
  have j: "joinGroup 2 [?A, ?B] = [(3, (0, 5, 10, 0))]"
    by (simp add: joinGroup_def joinStep_def mathPi_pi)
  show "consolidateLines insertionSort [(0, 0, 10, 0), (0, 5, 10, 5)] 1 10 1 = [(0, 5, 10, 0)]"
    by (simp add: consolidateLines_def consolidateLinesSchemed_def analyse_pair bigLines_def
          adjacencyGroups_def g a j insertionSort_def)
qed

text \<open>
  C6 as stated fails: with all three tolerances 0 both entry points return a result.
\<close>

theorem nonpositive_tolerance_counterexample:
  "consolidateLines insertionSort [(0, 0, 10, 0)] 0 0 0 = [(0, 0, 10, 0)]
   \<and> consolidateLinesBySlope [(0, 0, 10, 0)] 0 0 0 =
       [[\<lparr> angle = Num 0, length_l = 10, coordinates = (0, 0, 10, 0),
           xint = None, yint = Some (Num 0), rank = 0 \<rparr>]]"
  by (simp add: consolidateLines_def consolidateLinesSchemed_def bigLines_def adjacencyGroups_def
        colinearityGroups_def groupLines_def adjacencyGroupsOf_single joinGroup_def joinStep_def
        insertionSort_def consolidateLinesBySlope_def consolidateLinesSchemedBySlope_def
        analyseLines_def schemeLine_def Let_def mathPi_pi sqrt_100 jsub_def)

text \<open>
  C6, amended. No tolerance is checked, and both entry points return a result for every
  tolerance value. A non-positive tolerance only makes the match test fail: with
  \<open>rtol \<le> 0\<close> or \<open>dtolp \<le> 0\<close> the grouping by slope and length returns every annotated
  line in a group of its own, and with \<open>rtol \<le> 0\<close> or \<open>dtol < 0\<close> consolidation joins every
  annotated line on its own and orders the results.
\<close>

theorem nonpositive_tolerance_singletons:
  "(rtol \<le> 0 \<or> dtolp \<le> 0 \<longrightarrow>
      consolidateLinesBySlope lines rtol dtol dtolp = map (\<lambda>s. [s]) (analyseLines lines))
   \<and> (rtol \<le> 0 \<or> dtol < 0 \<longrightarrow>
      consolidateLines hostSort lines rtol dtol dtolp =
        map snd (hostSort rankCompare
          (concat (map (\<lambda>s. joinGroup (int (length lines)) [s]) (analyseLines lines)))))"
proof (intro conjI impI)
  assume "rtol \<le> 0 \<or> dtolp \<le> 0"
  thus "consolidateLinesBySlope lines rtol dtol dtolp = map (\<lambda>s. [s]) (analyseLines lines)"
    by (simp add: consolidateLinesBySlope_def consolidateLinesSchemedBySlope_def
          groupLines_no_match slopeLengthMatch_never)
next
  assume h: "rtol \<le> 0 \<or> dtol < 0"
  have g: "colinearityGroups (analyseLines lines) rtol dtol = map (\<lambda>s. [s]) (analyseLines lines)"
    using h by (simp add: colinearityGroups_def groupLines_no_match colinearMatch_never)
  have a: "adjacencyGroups (analyseLines lines) rtol dtol = map (\<lambda>s. [s]) (analyseLines lines)"
    by (simp add: adjacencyGroups_def g comp_def adjacencyGroupsOf_single concat_map_single)
  show "consolidateLines hostSort lines rtol dtol dtolp =
        map snd (hostSort rankCompare
          (concat (map (\<lambda>s. joinGroup (int (length lines)) [s]) (analyseLines lines))))"
    by (simp add: consolidateLines_def consolidateLinesSchemed_def bigLines_def a comp_def
          analyseLines_length)
qed

theorem nonpositive_tolerance_singletons_witness:
  "consolidateLinesBySlope [(0, 0, 10, 0), (0, 5, 10, 5)] 0 10 1 =
     [[\<lparr> angle = Num 0, length_l = 10, coordinates = (0, 0, 10, 0),
         xint = None, yint = Some (Num 0), rank = 0 \<rparr>],
      [\<lparr> angle = Num 0, length_l = 10, coordinates = (0, 5, 10, 5),
         xint = None, yint = Some (Num 5), rank = 1 \<rparr>]]
   \<and> consolidateLines insertionSort [(0, 0, 10, 0), (0, 5, 10, 5)] 0 10 1 =
       [(0, 0, 10, 0), (0, 5, 10, 5)]
   \<and> consolidateLinesBySlope [(0, 0, 10, 0), (0, 5, 10, 5)] 1 (- 1) 0 =
     [[\<lparr> angle = Num 0, length_l = 10, coordinates = (0, 0, 10, 0),
         xint = None, yint = Some (Num 0), rank = 0 \<rparr>],
      [\<lparr> angle = Num 0, length_l = 10, coordinates = (0, 5, 10, 5),
         xint = None, yint = Some (Num 5), rank = 1 \<rparr>]]
   \<and> consolidateLines insertionSort [(0, 0, 10, 0), (0, 5, 10, 5)] 1 (- 1) 0 =
       [(0, 0, 10, 0), (0, 5, 10, 5)]
   \<and> consolidateLinesBySlope [(0, 0, 10, 0), (0, 5, 10, 5)] 1 10 1 =
     [[\<lparr> angle = Num 0, length_l = 10, coordinates = (0, 0, 10, 0),
         xint = None, yint = Some (Num 0), rank = 0 \<rparr>,
       \<lparr> angle = Num 0, length_l = 10, coordinates = (0, 5, 10, 5),
         xint = None, yint = Some (Num 5), rank = 1 \<rparr>]]
   \<and> consolidateLines insertionSort [(0, 0, 10, 0), (0, 5, 10, 5)] 1 10 1 = [(0, 5, 10, 0)]"
  using nonpositive_tolerance_singletons [of 0 1 "[(0, 0, 10, 0), (0, 5, 10, 5)]" 10 insertionSort]
    nonpositive_tolerance_singletons [of 1 0 "[(0, 0, 10, 0), (0, 5, 10, 5)]" "- 1" insertionSort]
  by (simp add: analyse_pair pair_positive_tolerances joinGroup_def joinStep_def mathPi_pi
        insertionSort_def rankCompare_def)

text \<open>
  C7. Two schemed lines of lengths 10 and 15 at the same angle fall into different groups
  at \<open>dtolp = 0.1\<close>, and into one group at \<open>dtolp = 0.4\<close> (for a positive \<open>rtol\<close>: no two
  lines match otherwise). The match test is |angle difference| < rtol together with
  |lenA - lenB| < dtolp * max(|lenA|, |lenB|).
\<close>

theorem slopeLength_scenario:
  assumes "angle a = Num t" and "angle b = Num t" and "length_l a = 10" and "length_l b = 15"
    and "angle p = Num u" and "angle q = Num v"
  shows "consolidateLinesSchemedBySlope [a, b] rtol dtol (1 / 10) = [[a], [b]]
       \<and> consolidateLinesSchemedBySlope [a, b] rtol dtol (4 / 10) =
           (if 0 < rtol then [[a, b]] else [[a], [b]])
       \<and> (slopeLengthMatch rtol dtolp p q \<longleftrightarrow>
            \<bar>u - v\<bar> < rtol
            \<and> \<bar>length_l p - length_l q\<bar> < dtolp * max \<bar>length_l p\<bar> \<bar>length_l q\<bar>)"
  using assms
  by (simp add: consolidateLinesSchemedBySlope_def groupLines_def slopeLengthMatch_def
        scalarWithinTolerance_def jsub_def abs_minus_commute mult.commute)

theorem slopeLength_scenario_witness:
  "consolidateLinesSchemedBySlope
     [\<lparr> angle = Num 0, length_l = 10, coordinates = (0, 0, 10, 0),
        xint = None, yint = Some (Num 0), rank = 0 \<rparr>,
      \<lparr> angle = Num 0, length_l = 15, coordinates = (0, 7, 15, 7),
        xint = None, yint = Some (Num 7), rank = 1 \<rparr>] 1 1 (1 / 10) =
     [[\<lparr> angle = Num 0, length_l = 10, coordinates = (0, 0, 10, 0),
        xint = None, yint = Some (Num 0), rank = 0 \<rparr>],
      [\<lparr> angle = Num 0, length_l = 15, coordinates = (0, 7, 15, 7),
        xint = None, yint = Some (Num 7), rank = 1 \<rparr>]]
   \<and> consolidateLinesSchemedBySlope
     [\<lparr> angle = Num 0, length_l = 10, coordinates = (0, 0, 10, 0),
        xint = None, yint = Some (Num 0), rank = 0 \<rparr>,
      \<lparr> angle = Num 0, length_l = 15, coordinates = (0, 7, 15, 7),
        xint = None, yint = Some (Num 7), rank = 1 \<rparr>] 1 1 (4 / 10) =
     [[\<lparr> angle = Num 0, length_l = 10, coordinates = (0, 0, 10, 0),
        xint = None, yint = Some (Num 0), rank = 0 \<rparr>,
      \<lparr> angle = Num 0, length_l = 15, coordinates = (0, 7, 15, 7),
        xint = None, yint = Some (Num 7), rank = 1 \<rparr>]]"
  using slopeLength_scenario [of
      "\<lparr> angle = Num 0, length_l = 10, coordinates = (0, 0, 10, 0),
        xint = None, yint = Some (Num 0), rank = 0 \<rparr>" 0
      "\<lparr> angle = Num 0, length_l = 15, coordinates = (0, 7, 15, 7),
        xint = None, yint = Some (Num 7), rank = 1 \<rparr>"
      "\<lparr> angle = Num 0, length_l = 10, coordinates = (0, 0, 10, 0),
        xint = None, yint = Some (Num 0), rank = 0 \<rparr>" 0
      "\<lparr> angle = Num 0, length_l = 10, coordinates = (0, 0, 10, 0),
        xint = None, yint = Some (Num 0), rank = 0 \<rparr>" 0 1 1 1]
  by simp

section \<open>The order of the output\<close>

lemma sqrt_625: "sqrt 625 = 25"
  using real_sqrt_abs [of 25] by simp

lemma insertBy_never_negative:
  assumes "\<And>a b. 0 \<le> c a b"
  shows "insertBy c x ys = ys @ [x]"
proof (induction ys)
  case Nil
  then show ?case by simp
next
  case (Cons y ys)
  have "\<not> c x y < 0" using assms [of x y] by simp
  with Cons show ?case by simp
qed

lemma foldl_insertBy_never_negative:
  "(\<And>a b. 0 \<le> c a b) \<Longrightarrow> foldl (\<lambda>sorted x. insertBy c x sorted) acc xs = acc @ xs"
  by (induction xs arbitrary: acc) (simp_all add: insertBy_never_negative)

lemma rankCompare_nonneg: "0 \<le> rankCompare a b"
  by (simp add: rankCompare_def)

lemma insertionSort_rankCompare: "insertionSort rankCompare xs = xs"
  by (simp add: insertionSort_def foldl_insertBy_never_negative rankCompare_nonneg)

lemma analyse_four:
  "analyseLines [(0, 0, 10, 0), (0, 50, 10, 50), (5, 50, 30, 50), (0, 100, 10, 100)] =
     [\<lparr> angle = Num 0, length_l = 10, coordinates = (0, 0, 10, 0),
        xint = None, yint = Some (Num 0), rank = 0 \<rparr>,
      \<lparr> angle = Num 0, length_l = 10, coordinates = (0, 50, 10, 50),
        xint = None, yint = Some (Num 50), rank = 1 \<rparr>,
      \<lparr> angle = Num 0, length_l = 25, coordinates = (5, 50, 30, 50),
        xint = None, yint = Some (Num 50), rank = 2 \<rparr>,
      \<lparr> angle = Num 0, length_l = 10, coordinates = (0, 100, 10, 100),
        xint = None, yint = Some (Num 100), rank = 3 \<rparr>]"
  by (simp add: analyseLines_def schemeLine_def Let_def mathPi_pi sqrt_100 sqrt_625 jsub_def)

lemma bigLines_four:
  "bigLines (analyseLines [(0, 0, 10, 0), (0, 50, 10, 50), (5, 50, 30, 50), (0, 100, 10, 100)]) 1 1 =
     [(4, (0, 0, 10, 0)), (5, (0, 50, 30, 50)), (1, (0, 100, 10, 100))]"
proof -
  let ?A = "\<lparr> angle = Num 0, length_l = 10, coordinates = (0, 0, 10, 0),
        xint = None, yint = Some (Num 0), rank = 0 \<rparr>"
  let ?B = "\<lparr> angle = Num 0, length_l = 10, coordinates = (0, 50, 10, 50),
        xint = None, yint = Some (Num 50), rank = 1 \<rparr>"
  let ?C = "\<lparr> angle = Num 0, length_l = 25, coordinates = (5, 50, 30, 50),
        xint = None, yint = Some (Num 50), rank = 2 \<rparr>"
  let ?D = "\<lparr> angle = Num 0, length_l = 10, coordinates = (0, 100, 10, 100),
        xint = None, yint = Some (Num 100), rank = 3 \<rparr>"
  have g: "colinearityGroups [?A, ?B, ?C, ?D] 1 1 = [[?A], [?B, ?C], [?D]]"
    by (simp add: colinearityGroups_def groupLines_def colinearMatch_def
        interceptsWithin_def jsub_def)
  have a: "adjacencyGroupsOf 1 [?B, ?C] = [[?B, ?C]]"
    by (simp add: adjacencyGroupsOf_def adjacencyStep_def adjacent_of_nonneg_gap)
  have j: "joinGroup 4 [?A] = [(4, (0, 0, 10, 0))]" "joinGroup 4 [?B, ?C] = [(5, (0, 50, 30, 50))]"
      "joinGroup 4 [?D] = [(1, (0, 100, 10, 100))]"
    by (simp_all add: joinGroup_def joinStep_def mathPi_pi)
  show ?thesis
    by (simp add: analyse_four bigLines_def adjacencyGroups_def g a j adjacencyGroupsOf_single)
qed

text \<open>
  C3 fails on the code. The comparison function never returns a negative number, so a host
  sort that moves an element forward only on a negative result leaves the array as it is.
  For the four flat lines below the joined lines have the ranks 4, 5 and 1, in this order,
  and are returned in this order; with the three-way comparison \<open>b.rank - a.rank\<close> the
  same sort returns them by descending rank.
\<close>

theorem consolidateLines_not_descending:
  "bigLines (analyseLines [(0, 0, 10, 0), (0, 50, 10, 50), (5, 50, 30, 50), (0, 100, 10, 100)]) 1 1 =
     [(4, (0, 0, 10, 0)), (5, (0, 50, 30, 50)), (1, (0, 100, 10, 100))]
   \<and> consolidateLines insertionSort
       [(0, 0, 10, 0), (0, 50, 10, 50), (5, 50, 30, 50), (0, 100, 10, 100)] 1 1 1 =
     [(0, 0, 10, 0), (0, 50, 30, 50), (0, 100, 10, 100)]
   \<and> map snd (insertionSort (\<lambda>a b. fst b - fst a)
       (bigLines (analyseLines [(0, 0, 10, 0), (0, 50, 10, 50), (5, 50, 30, 50), (0, 100, 10, 100)]) 1 1)) =
     [(0, 50, 30, 50), (0, 0, 10, 0), (0, 100, 10, 100)]"
  by (simp add: consolidateLines_def consolidateLinesSchemed_def bigLines_four
        insertionSort_rankCompare)
     (simp add: insertionSort_def)

section \<open>The adjacency test for all gaps\<close>

lemma jle_jsqrt_neg:
  assumes "t < 0"
  shows "\<not> jle (jsqrt x) (Num t)"
proof (cases x)
  case (Num r)
  show ?thesis
  proof (cases "r < 0")
    case True
    with Num show ?thesis by simp
  next
    case False
    hence "0 \<le> sqrt r" by simp
    hence "\<not> sqrt r \<le> t" using assms by linarith
    with Num False show ?thesis by simp
  qed
qed simp_all

lemma vectorDistance_neg:
  "t < 0 \<Longrightarrow> length v0 = length v1 \<Longrightarrow> \<not> jsLeq (vectorDistance v0 v1) t"
  by (simp add: vectorDistance_def vectorDifference_def vectorBinaryOpMinus_def
        vectorMagnitude_def jsLeq_def jle_jsqrt_neg)

lemma projected_neg: "t < 0 \<Longrightarrow> \<not> line2dProjectedPointWithinTolerance l p t"
  by (simp add: line2dProjectedPointWithinTolerance_def Let_def vectorDistance_neg)

lemma adjacent_iff_nonneg_gap:
  "lineGroupAndSegmentAdjacent baseGroup testLineFull gap \<longleftrightarrow> 0 \<le> gap"
proof (cases "0 \<le> gap")
  case True
  then show ?thesis by (simp add: adjacent_of_nonneg_gap)
next
  case False
  obtain t0 t1 t2 t3 where t: "coordinates testLineFull = (t0, t1, t2, t3)"
    by (cases "coordinates testLineFull") auto
  from False have n: "gap < 0" by simp
  have "\<not> jsLeq (vectorDistance v0 v1) gap" for v0 v1
  proof (cases "length v0 = length v1")
    case True
    with n show ?thesis by (simp add: vectorDistance_neg)
  next
    case False
    with n show ?thesis by (simp add: vectorDistance_null jsLeq_def)
  qed
  thus ?thesis using False n
    by (simp add: lineGroupAndSegmentAdjacent_def Let_def t projected_neg)
qed

end
